theory Spec2Isabelle
  imports Main
begin

section \<open>Data model (frontend/types.ts)\<close>

text \<open>
  The page component of the chat application (the second \<open>HomePage\<close> of
  \<open>src/unnamed/part_001\<close>) is embedded as state passing over a record of its React state
  variables and a record of the remote store. Strings are \<open>string\<close>; a value that may
  be \<open>null\<close> or \<open>undefined\<close> is an \<open>option\<close>; timestamps are natural numbers, so
  that the store can order rows by them.
\<close>

record SearchResultItem =
  title :: string
  url :: string
  content :: "string option"

record FetchedLinksResponse =
  query :: string
  results :: "SearchResultItem list"
  total_results :: "nat option"

record AnalysisItem =
  question :: string
  analysis_content :: string

record AiResponse =
  sub_questions :: "string list"
  analysis :: "AnalysisItem list"
  synthesis :: "string list"
  final_answer :: "string list"
  sources :: "string list"

datatype DisplayStage =
    Idle
  | FetchingLinks
  | GatheringLinks
  | FetchingAiAnalysis
  | Subquestions
  | Analysis
  | Synthesis
  | Final
  | Error

text \<open>The fields of \<open>ChatMessage\<close> and \<open>ChatSession\<close> carry a prefix, since both
  interfaces (and the store rows) have an \<open>id\<close>, a \<open>user_id\<close> and a \<open>created_at\<close>.\<close>

record ChatMessage =
  cm_id :: "string option"
  cm_session_id :: "string option"
  cm_user_id :: "string option"
  cm_query :: string
  cm_response :: "AiResponse option"
  cm_fetchedLinks :: "FetchedLinksResponse option"
  cm_error :: "string option"
  cm_stage :: DisplayStage
  cm_created_at :: "nat option"

record ChatSession =
  cs_id :: string
  cs_user_id :: string
  cs_created_at :: nat
  cs_session_name :: "string option"



subsection \<open>JavaScript truthiness of identifiers and strings\<close>

text \<open>\<open>!x\<close> on a \<open>string | null\<close>: \<open>null\<close>, \<open>undefined\<close> and the empty string are falsy.\<close>

definition truthy :: "string option \<Rightarrow> bool" where
  "truthy x = (case x of None \<Rightarrow> False | Some v \<Rightarrow> v \<noteq> [])"

text \<open>\<open>a || b\<close> on two such values.\<close>

definition js_or :: "string option \<Rightarrow> string option \<Rightarrow> string option" where
  "js_or a b = (if truthy a then a else b)"

text \<open>\<open>a || b\<close> on two strings.\<close>

definition str_or :: "string \<Rightarrow> string \<Rightarrow> string" where
  "str_or a b = (if a \<noteq> [] then a else b)"

text \<open>\<open>ch.id === target\<close>, where \<open>ch.id\<close> is a string or \<open>undefined\<close> and the target a
  string or \<open>null\<close>: true only when both are the same string.\<close>

definition id_eq :: "string option \<Rightarrow> string option \<Rightarrow> bool" where
  "id_eq a b = (case a of None \<Rightarrow> False | Some v \<Rightarrow> b = Some v)"



section \<open>The remote store\<close>

text \<open>
  The rows that the page selects from the table \<open>chat_messages\<close>:
  \<open>id, query_text, response_data, created_at, session_id, user_id\<close>. The table has no
  column for an error text. Rows of \<open>chat_sessions\<close> have the shape of \<open>ChatSession\<close>.
\<close>

record msg_row =
  row_id :: string
  row_query_text :: string
  row_response_data :: "AiResponse option"
  row_created_at :: nat
  row_session_id :: string
  row_user_id :: string

record store =
  sessions :: "ChatSession list"
  messages :: "msg_row list"

text \<open>
  What the environment decides about one call to the store: whether the call succeeds,
  and, for an insert, the identifier and the timestamp that the store gives the new row.
\<close>

record store_env =
  env_ok :: bool
  env_id :: string
  env_now :: nat

text \<open>
  The client of the persistent store (\<open>lib/supabaseClient\<close>) and the store behind it are
  not part of the sources; the five operations that the page calls are modelled from
  section 6 of the specification.
\<close>

text \<open>Modelled from the spec: \<open>.single()\<close> of the store client, which answers with an
  error unless exactly one row comes back.\<close>

definition single :: "'a list \<Rightarrow> 'a option" where
  "single rows = (case rows of [r] \<Rightarrow> Some r | _ \<Rightarrow> None)"



text \<open>Modelled from the spec: the insert into the messages table of the store, which
  requires a \<open>query_text\<close>.\<close>

definition db_insert_message ::
  "store_env \<Rightarrow> string \<Rightarrow> string \<Rightarrow> string \<Rightarrow> AiResponse option \<Rightarrow> store
     \<Rightarrow> msg_row option \<times> store" where
  "db_insert_message e sid uid qtext resp db =
     (if env_ok e then
        (let row = \<lparr>row_id = env_id e, row_query_text = qtext, row_response_data = resp,
                     row_created_at = env_now e, row_session_id = sid, row_user_id = uid\<rparr>
         in (Some row, db\<lparr>messages := messages db @ [row]\<rparr>))
      else (None, db))"

text \<open>Modelled from the spec: the update of the messages table of the store, of
  \<open>response_data\<close> only, by id.\<close>

definition db_update_response ::
  "store_env \<Rightarrow> string \<Rightarrow> AiResponse \<Rightarrow> store \<Rightarrow> msg_row option \<times> store" where
  "db_update_response e mid resp db =
     (if env_ok e then
        (let db' = db\<lparr>messages :=
                    map (\<lambda>r. if row_id r = mid then r\<lparr>row_response_data := Some resp\<rparr> else r)
                      (messages db)\<rparr>
         in (single (filter (\<lambda>r. row_id r = mid) (messages db')), db'))
      else (None, db))"

text \<open>Modelled from the spec: the read of the messages table of the store, the rows of
  one session in ascending order of \<open>created_at\<close>.\<close>

definition db_select_messages :: "bool \<Rightarrow> string \<Rightarrow> store \<Rightarrow> msg_row list option" where
  "db_select_messages ok sid db =
     (if ok then Some (sort_key row_created_at (filter (\<lambda>r. row_session_id r = sid) (messages db)))
      else None)"

section \<open>The state of the page\<close>

text \<open>
  One field for each \<open>useState\<close> variable that the modelled handlers read or write; \<open>user\<close>
  holds the id of the signed-in user. The reference \<open>prevChatHistoryLengthRef\<close> only drives
  scrolling and is left out.
\<close>

record ui =
  user :: "string option"
  isLoadingAuth :: bool
  chatHistory :: "ChatMessage list"
  currentSessionId :: "string option"
  chatSessionsList :: "ChatSession list"
  isLoadingSessions :: bool
  isLoadingMessages :: bool
  currentPendingMessageId :: "string option"
  currentQuery :: string
  fetchedLinksData :: "FetchedLinksResponse option"
  aiAnalysisData :: "AiResponse option"
  isLoading :: bool
  error :: "string option"
  currentDisplayStage :: DisplayStage
  currentLinkIndex :: nat
  loadingMessage :: string
  selectedAiModel :: string

text \<open>
  A handler is a closure of the render that created it: it reads the state variables as
  they were at that render, while its \<open>setX\<close> calls act on the current state. The values
  that \<open>saveChatMessage\<close> reads from its render are collected in a record.
\<close>

record closure =
  cl_user :: "string option"
  cl_currentSessionId :: "string option"
  cl_currentPendingMessageId :: "string option"

definition closure_of :: "ui \<Rightarrow> closure" where
  "closure_of s = \<lparr>cl_user = user s, cl_currentSessionId = currentSessionId s,
                   cl_currentPendingMessageId = currentPendingMessageId s\<rparr>"

section \<open>Outcome of a network call\<close>

text \<open>
  What \<open>await fetch(...)\<close> followed by \<open>response.json()\<close> can give: the fetch is rejected
  (with \<open>err.message\<close>); the status is not 2xx, with the status text and the body, which is
  \<open>None\<close> when it does not parse and otherwise holds its \<open>detail\<close> field if it has one; the
  status is 2xx and the body does not parse (with the message of the rejection); or the
  parsed body.
\<close>

datatype 'a fetch_outcome =
    FetchRejected string
  | NotOk string "string option option"
  | OkUnparsable string
  | OkBody 'a

text \<open>The message of the error thrown inside the \<open>try\<close> block; \<open>pre\<close> and \<open>fallback\<close>
  are the two literals of the call site.\<close>

definition thrown_message :: "string \<Rightarrow> string \<Rightarrow> 'a fetch_outcome \<Rightarrow> string" where
  "thrown_message pre fallback out =
     (case out of
        FetchRejected m \<Rightarrow> m
      | NotOk statusText body \<Rightarrow>
          (let detail = (case body of None \<Rightarrow> Some (pre @ statusText) | Some d \<Rightarrow> d)
           in case detail of None \<Rightarrow> fallback | Some d \<Rightarrow> str_or d fallback)
      | OkUnparsable m \<Rightarrow> m
      | OkBody _ \<Rightarrow> [])"

section \<open>Handlers of the page (src/unnamed/part_001, second component)\<close>

subsection \<open>\<open>saveChatMessage\<close>\<close>

text \<open>
  The part of \<open>Partial<ChatMessage>\<close> that callers pass: a query, a response or an error.
  \<open>saveChatMessage\<close> reads the query and the response only; the line that would store the
  error is commented out in the source.
\<close>

record messageData =
  md_query :: "string option"
  md_response :: "AiResponse option"
  md_error :: "string option"

definition saveChatMessage ::
  "closure \<Rightarrow> store_env \<Rightarrow> messageData \<Rightarrow> string option \<Rightarrow> store \<Rightarrow> msg_row option \<times> store" where
  "saveChatMessage cl e md forMessageId db =
     (case cl_user cl of
        None \<Rightarrow> (None, db)
      | Some uid \<Rightarrow>
          if \<not> truthy (cl_currentSessionId cl) then (None, db)
          else
            (let messageIdToSaveAgainst = js_or forMessageId (cl_currentPendingMessageId cl);
                 query_text = (if truthy (md_query md) then md_query md else None);
                 response_data = md_response md
             in if truthy messageIdToSaveAgainst \<and> query_text = None then
                  (case response_data of
                     None \<Rightarrow> (None, db)
                   | Some r \<Rightarrow> db_update_response e (the messageIdToSaveAgainst) r db)
                else
                  (case query_text of
                     Some q \<Rightarrow>
                       db_insert_message e (the (cl_currentSessionId cl)) uid q response_data db
                   | None \<Rightarrow> (None, db))))"

subsection \<open>\<open>handleSelectChat\<close>\<close>

definition loadMessage :: "msg_row \<Rightarrow> ChatMessage" where
  "loadMessage msg =
     \<lparr>cm_id = Some (row_id msg),
      cm_session_id = Some (row_session_id msg),
      cm_user_id = Some (row_user_id msg),
      cm_query = row_query_text msg,
      cm_response = row_response_data msg,
      cm_fetchedLinks = None,
      cm_error = None,
      cm_stage = Final,
      cm_created_at = Some (row_created_at msg)\<rparr>"

text \<open>\<open>cl\<close> is the state of the render whose handler runs; \<open>ok\<close> tells whether the
  select of the messages succeeds. The select does not change the store.\<close>

definition handleSelectChat :: "ui \<Rightarrow> string \<Rightarrow> bool \<Rightarrow> ui \<times> store \<Rightarrow> ui \<times> store" where
  "handleSelectChat cl sessionId ok w =
     (case w of (s, db) \<Rightarrow>
        if user cl = None \<or> currentSessionId cl = Some sessionId then (s, db)
        else
          (let s1 = s\<lparr>currentSessionId := Some sessionId,
                      chatHistory := [],
                      aiAnalysisData := None,
                      fetchedLinksData := None,
                      currentDisplayStage := Idle,
                      error := None,
                      currentPendingMessageId := None,
                      isLoadingMessages := True\<rparr>
           in case db_select_messages ok sessionId db of
                Some rows \<Rightarrow>
                  (s1\<lparr>chatHistory := map loadMessage rows, isLoadingMessages := False\<rparr>, db)
              | None \<Rightarrow>
                  (s1\<lparr>error := Some ''Could not load messages for this chat.'',
                      isLoadingMessages := False\<rparr>, db)))"

subsection \<open>\<open>fetchAiAnalysis\<close>\<close>

text \<open>The request that the call issues, and what its continuation keeps: the closure of
  the \<open>saveChatMessage\<close> it calls and the id of the message it works for.\<close>

record ai_call =
  ac_endpoint :: string
  ac_original_query :: string
  ac_search_results :: FetchedLinksResponse
  ac_forMessageId :: "string option"
  ac_closure :: closure

definition aiEndpoint :: "string \<Rightarrow> string" where
  "aiEndpoint model =
     (if model = ''mistral'' then ''http://localhost:8000/api/fetch-mistral-analysis''
      else ''http://localhost:8000/api/fetch-ai-analysis'')"

text \<open>The part of \<open>fetchAiAnalysis\<close> before its \<open>await fetch\<close>.\<close>

definition fetchAiAnalysis_call ::
  "closure \<Rightarrow> string \<Rightarrow> string \<Rightarrow> FetchedLinksResponse \<Rightarrow> string option \<Rightarrow> ui \<Rightarrow> ui \<times> ai_call" where
  "fetchAiAnalysis_call cb model q linksData forMessageId s =
     (s\<lparr>aiAnalysisData := None,
        currentDisplayStage := FetchingAiAnalysis,
        loadingMessage := ''Preparing AI analysis...'',
        error := None\<rparr>,
      \<lparr>ac_endpoint = aiEndpoint model, ac_original_query = q, ac_search_results = linksData,
       ac_forMessageId = forMessageId, ac_closure = cb\<rparr>)"


subsection \<open>The stage-advancement effect\<close>




subsection \<open>\<open>handleSearch\<close>\<close>


text \<open>
  What the continuation after \<open>await fetch\<close> of the links keeps: the query, the id of
  \<open>savedQueryRecord\<close> (\<open>None\<close> when the record is \<open>null\<close>), the closure of the render
  that started the search, and the closure and model of the memoised \<open>fetchAiAnalysis\<close> of
  that render.
\<close>

record link_cont =
  lc_searchQuery :: string
  lc_savedId :: "string option"
  lc_closure :: closure
  lc_callback :: closure
  lc_model :: string

text \<open>\<open>savedQueryRecord?.id || currentPendingMessageId\<close>\<close>

definition lc_target :: "link_cont \<Rightarrow> string option" where
  "lc_target lc = js_or (lc_savedId lc) (cl_currentPendingMessageId (lc_closure lc))"

text \<open>
  \<open>useCallback\<close> keeps \<open>fetchAiAnalysis\<close> until \<open>user\<close>, \<open>currentSessionId\<close> or
  \<open>selectedAiModel\<close> change: the \<open>saveChatMessage\<close> it calls has the user and session of
  the current render, and the pending id \<open>memo\<close> of the render that created the callback.
\<close>

definition callback_closure :: "ui \<Rightarrow> string option \<Rightarrow> closure" where
  "callback_closure cl memo =
     \<lparr>cl_user = user cl, cl_currentSessionId = currentSessionId cl,
      cl_currentPendingMessageId = memo\<rparr>"







text \<open>
  The rest of \<open>handleSearch\<close> (lines 642 to 675), run when the outcome of the link fetch is
  known. The result is the new state and the AI request that is now in flight, if any.
\<close>

definition handleSearch_links ::
  "link_cont \<Rightarrow> FetchedLinksResponse fetch_outcome \<Rightarrow> store_env \<Rightarrow> ui \<times> store
     \<Rightarrow> (ui \<times> store) \<times> ai_call option" where
  "handleSearch_links lc out e w =
     (case w of (s, db) \<Rightarrow>
        (case out of
           OkBody linksDataResp \<Rightarrow>
             (let s1 = s\<lparr>fetchedLinksData := Some linksDataResp,
                         chatHistory :=
                           map (\<lambda>ch. if id_eq (cm_id ch) (lc_target lc)
                                      then ch\<lparr>cm_fetchedLinks := Some linksDataResp,
                                              cm_stage := (if length (results linksDataResp) > 0
                                                           then GatheringLinks
                                                           else FetchingAiAnalysis)\<rparr>
                                      else ch) (chatHistory s)\<rparr>
              in if length (results linksDataResp) > 0 then
                   ((s1\<lparr>currentDisplayStage := GatheringLinks, isLoading := False\<rparr>, db), None)
                 else
                   (let s2 = s1\<lparr>loadingMessage :=
                                   ''No specific links found. Attempting general analysis...''\<rparr>;
                        emptyLinksData = \<lparr>query = lc_searchQuery lc, results = [],
                                           total_results = Some 0\<rparr>;
                        (s3, call) = fetchAiAnalysis_call (lc_callback lc) (lc_model lc)
                                       (lc_searchQuery lc) emptyLinksData (lc_target lc) s2
                    in ((s3\<lparr>isLoading := False\<rparr>, db), Some call)))
         | _ \<Rightarrow>
             (let errorMsg = str_or (thrown_message ''Link fetch failed: ''
                                       ''Link fetch network response was not ok'' out)
                               ''An unknown error occurred during search.'';
                  s1 = s\<lparr>error := Some errorMsg, currentDisplayStage := Error\<rparr>;
                  db1 = (if truthy (lc_target lc)
                         then snd (saveChatMessage (lc_closure lc) e
                                     \<lparr>md_query = None, md_response = None,
                                      md_error = Some errorMsg\<rparr> (lc_target lc) db)
                         else db)
              in ((s1\<lparr>chatHistory :=
                        map (\<lambda>ch. if id_eq (cm_id ch) (lc_target lc)
                                   then ch\<lparr>cm_error := Some errorMsg, cm_stage := Error\<rparr> else ch)
                          (chatHistory s1),
                      currentPendingMessageId := None,
                      isLoading := False\<rparr>, db1), None))))"

section \<open>The page as an event-driven system\<close>










section \<open>Example states\<close>

text \<open>A signed-in user with two sessions: \<open>s1\<close>, fresh and still named "New Chat", is
  active; \<open>s2\<close> holds a completed message and one that never got a response.\<close>

definition ex_resp :: AiResponse where
  "ex_resp = \<lparr>sub_questions = [''sub''], analysis = [], synthesis = [''syn''],
              final_answer = [''answer''], sources = []\<rparr>"

definition ex_s1 :: ChatSession where
  "ex_s1 = \<lparr>cs_id = ''s1'', cs_user_id = ''u1'', cs_created_at = 2,
            cs_session_name = Some ''New Chat''\<rparr>"

definition ex_s2 :: ChatSession where
  "ex_s2 = \<lparr>cs_id = ''s2'', cs_user_id = ''u1'', cs_created_at = 1,
            cs_session_name = Some ''Older chat''\<rparr>"

definition ex_m0 :: msg_row where
  "ex_m0 = \<lparr>row_id = ''m0'', row_query_text = ''old'', row_response_data = Some ex_resp,
            row_created_at = 3, row_session_id = ''s2'', row_user_id = ''u1''\<rparr>"

definition ex_m9 :: msg_row where
  "ex_m9 = \<lparr>row_id = ''m9'', row_query_text = ''unanswered'', row_response_data = None,
            row_created_at = 4, row_session_id = ''s2'', row_user_id = ''u1''\<rparr>"

definition ex_db :: store where
  "ex_db = \<lparr>sessions = [ex_s1, ex_s2], messages = [ex_m0, ex_m9]\<rparr>"

definition ex_ui :: ui where
  "ex_ui = \<lparr>user = Some ''u1'', isLoadingAuth = False, chatHistory = [],
            currentSessionId = Some ''s1'', chatSessionsList = [ex_s1, ex_s2],
            isLoadingSessions = False, isLoadingMessages = False,
            currentPendingMessageId = None, currentQuery = [], fetchedLinksData = None,
            aiAnalysisData = None, isLoading = False, error = None,
            currentDisplayStage = Idle, currentLinkIndex = 0, loadingMessage = [],
            selectedAiModel = ''gemini''\<rparr>"



definition env_failure :: store_env where
  "env_failure = \<lparr>env_ok = False, env_id = [], env_now = 0\<rparr>"

definition ex_links :: "string list \<Rightarrow> FetchedLinksResponse" where
  "ex_links us = \<lparr>query = ''Q1'',
                  results = map (\<lambda>u. \<lparr>title = u, url = u, content = None\<rparr>) us,
                  total_results = None\<rparr>"

definition ex_lc :: link_cont where
  "ex_lc = \<lparr>lc_searchQuery = ''Q1'', lc_savedId = Some ''m1'',
            lc_closure = closure_of ex_ui, lc_callback = callback_closure ex_ui None,
            lc_model = ''gemini''\<rparr>"





section \<open>Predicates on events and states\<close>



section \<open>The reveal of the links\<close>




text \<open>A failed request: every outcome but a parsed body.\<close>

fun failed :: "'a fetch_outcome \<Rightarrow> bool" where
  "failed (OkBody _) = False"
| "failed _ = True"







section \<open>Pending messages and the phases of one orchestration\<close>















section \<open>Example runs with two queries\<close>








section \<open>Properties\<close>

subsection \<open>Selecting a session\<close>

lemma loadMessage_fields:
  "cm_stage (loadMessage r) = Final" "cm_fetchedLinks (loadMessage r) = None"
  "cm_error (loadMessage r) = None" "cm_response (loadMessage r) = row_response_data r"
  "cm_id (loadMessage r) = Some (row_id r)" "cm_query (loadMessage r) = row_query_text r"
  by (simp_all add: loadMessage_def)

lemma handleSelectChat_history:
  assumes "user cl \<noteq> None" "currentSessionId cl \<noteq> Some sessionId"
  shows "chatHistory (fst (handleSelectChat cl sessionId ok (s, db))) =
           (case db_select_messages ok sessionId db of
              None \<Rightarrow> [] | Some rows \<Rightarrow> map loadMessage rows)"
  using assms by (auto simp: handleSelectChat_def Let_def split: option.splits)

text \<open>
  Claim C8. Selecting the session that is already active is a no-op: the handler returns
  at its first line, so the state and the store are left as they were; nothing is reloaded
  and nothing is reset.
\<close>

theorem handleSelectChat_active_noop:
  "currentSessionId cl = Some sessionId \<Longrightarrow> handleSelectChat cl sessionId ok w = w"
  by (simp add: handleSelectChat_def split: prod.splits)

theorem handleSelectChat_active_noop_witness:
  "currentSessionId ex_ui = Some ''s1''
   \<and> handleSelectChat ex_ui ''s1'' True (ex_ui, ex_db) = (ex_ui, ex_db)"
  using handleSelectChat_active_noop [of ex_ui "''s1''" True "(ex_ui, ex_db)"]
  by (simp add: ex_ui_def)

text \<open>
  Claim C9 (round trip). For a signed-in user who selects a session other than the active
  one, and whose select succeeds: every row of that session stored with a response is
  reconstructed as a message of the history with the row's id and query, the stage
  \<open>Final\<close>, and the stored response.
\<close>

theorem handleSelectChat_roundtrip:
  assumes "user cl \<noteq> None" and "currentSessionId cl \<noteq> Some sessionId"
    and "r \<in> set (messages db)" and "row_session_id r = sessionId"
    and "row_response_data r = Some resp"
  shows "\<exists>m \<in> set (chatHistory (fst (handleSelectChat cl sessionId True (s, db)))).
           cm_id m = Some (row_id r) \<and> cm_query m = row_query_text r
           \<and> cm_stage m = Final \<and> cm_response m = Some resp"
proof -
  have "loadMessage r \<in> set (chatHistory (fst (handleSelectChat cl sessionId True (s, db))))"
    using assms by (simp add: handleSelectChat_history db_select_messages_def)
  then show ?thesis
    using assms(5) by (auto simp: loadMessage_fields intro!: bexI [of _ "loadMessage r"])
qed

theorem handleSelectChat_roundtrip_witness:
  "user ex_ui \<noteq> None \<and> currentSessionId ex_ui \<noteq> Some ''s2''
   \<and> ex_m0 \<in> set (messages ex_db) \<and> row_session_id ex_m0 = ''s2''
   \<and> row_response_data ex_m0 = Some ex_resp
   \<and> (\<exists>m \<in> set (chatHistory (fst (handleSelectChat ex_ui ''s2'' True (ex_ui, ex_db)))).
           cm_id m = Some ''m0'' \<and> cm_query m = ''old''
           \<and> cm_stage m = Final \<and> cm_response m = Some ex_resp)"
proof -
  have a: "user ex_ui \<noteq> None" "currentSessionId ex_ui \<noteq> Some ''s2''"
    by (simp_all add: ex_ui_def)
  have b: "ex_m0 \<in> set (messages ex_db)" "row_session_id ex_m0 = ''s2''"
    "row_response_data ex_m0 = Some ex_resp" "row_id ex_m0 = ''m0''"
    "row_query_text ex_m0 = ''old''"
    by (simp_all add: ex_db_def ex_m0_def)
  have "\<exists>m \<in> set (chatHistory (fst (handleSelectChat ex_ui ''s2'' True (ex_ui, ex_db)))).
           cm_id m = Some (row_id ex_m0) \<and> cm_query m = row_query_text ex_m0
           \<and> cm_stage m = Final \<and> cm_response m = Some ex_resp"
    by (rule handleSelectChat_roundtrip [OF a b(1,2,3)])
  then show ?thesis using a b by simp
qed

text \<open>
  Claim C10. Every message that a select loads has the stage \<open>Final\<close> and neither fetched
  links nor an error; a row that was stored with a query and never got a response is
  loaded all the same, as a message in stage \<open>Final\<close> without a response.
\<close>

theorem handleSelectChat_all_final:
  assumes "user cl \<noteq> None" and "currentSessionId cl \<noteq> Some sessionId"
  shows "(\<forall>m \<in> set (chatHistory (fst (handleSelectChat cl sessionId ok (s, db)))).
            cm_stage m = Final \<and> cm_fetchedLinks m = None \<and> cm_error m = None)
         \<and> (ok \<longrightarrow> (\<forall>r \<in> set (messages db). row_session_id r = sessionId \<longrightarrow>
               row_response_data r = None \<longrightarrow>
               (\<exists>m \<in> set (chatHistory (fst (handleSelectChat cl sessionId ok (s, db)))).
                  cm_id m = Some (row_id r) \<and> cm_stage m = Final \<and> cm_response m = None)))"
proof -
  have h: "chatHistory (fst (handleSelectChat cl sessionId ok (s, db))) =
           (case db_select_messages ok sessionId db of
              None \<Rightarrow> [] | Some rows \<Rightarrow> map loadMessage rows)"
    using assms by (rule handleSelectChat_history)
  have A: "\<forall>m \<in> set (chatHistory (fst (handleSelectChat cl sessionId ok (s, db)))).
            cm_stage m = Final \<and> cm_fetchedLinks m = None \<and> cm_error m = None"
  proof
    fix m assume "m \<in> set (chatHistory (fst (handleSelectChat cl sessionId ok (s, db))))"
    then obtain r where "m = loadMessage r"
      unfolding h by (auto split: option.splits)
    then show "cm_stage m = Final \<and> cm_fetchedLinks m = None \<and> cm_error m = None"
      by (simp add: loadMessage_fields)
  qed
  have B: "\<exists>m \<in> set (chatHistory (fst (handleSelectChat cl sessionId ok (s, db)))).
                  cm_id m = Some (row_id r) \<and> cm_stage m = Final \<and> cm_response m = None"
    if "ok" and r: "r \<in> set (messages db)" "row_session_id r = sessionId"
      "row_response_data r = None" for r
  proof -
    have "loadMessage r \<in> set (chatHistory (fst (handleSelectChat cl sessionId ok (s, db))))"
      unfolding h using that by (simp add: db_select_messages_def)
    then show ?thesis
      using r by (auto simp: loadMessage_fields intro!: bexI [of _ "loadMessage r"])
  qed
  show ?thesis using A B by blast
qed

theorem handleSelectChat_all_final_witness:
  "user ex_ui \<noteq> None \<and> currentSessionId ex_ui \<noteq> Some ''s2''
   \<and> ex_m9 \<in> set (messages ex_db) \<and> row_session_id ex_m9 = ''s2''
   \<and> row_response_data ex_m9 = None
   \<and> map cm_stage (chatHistory (fst (handleSelectChat ex_ui ''s2'' True (ex_ui, ex_db))))
       = [Final, Final]
   \<and> (\<exists>m \<in> set (chatHistory (fst (handleSelectChat ex_ui ''s2'' True (ex_ui, ex_db)))).
         cm_id m = Some ''m9'' \<and> cm_stage m = Final \<and> cm_response m = None)"
proof -
  have a: "user ex_ui \<noteq> None" "currentSessionId ex_ui \<noteq> Some ''s2''"
    by (simp_all add: ex_ui_def)
  have b: "ex_m9 \<in> set (messages ex_db)" "row_session_id ex_m9 = ''s2''"
    "row_response_data ex_m9 = None" "row_id ex_m9 = ''m9''"
    by (simp_all add: ex_db_def ex_m9_def)
  have c: "map cm_stage (chatHistory (fst (handleSelectChat ex_ui ''s2'' True (ex_ui, ex_db))))
             = [Final, Final]"
    by (simp add: handleSelectChat_def Let_def db_select_messages_def ex_ui_def ex_db_def
        ex_m0_def ex_m9_def loadMessage_def)
  have "\<exists>m \<in> set (chatHistory (fst (handleSelectChat ex_ui ''s2'' True (ex_ui, ex_db)))).
          cm_id m = Some (row_id ex_m9) \<and> cm_stage m = Final \<and> cm_response m = None"
    using handleSelectChat_all_final [OF a, of True ex_ui ex_db] b(1,2,3) by blast
  then show ?thesis using a b c by simp
qed

subsection \<open>Submitting a query and receiving its links\<close>

text \<open>
  Claim C3. When the link fetch answers with an empty list of results, the continuation of
  \<open>handleSearch\<close> sets the stage to \<open>FetchingAiAnalysis\<close> in the same segment, without
  passing through \<open>GatheringLinks\<close>, and issues the analysis request for the query with an
  empty list of links; the message of the query gets the stage \<open>FetchingAiAnalysis\<close> too.
\<close>

theorem handleSearch_links_empty:
  assumes "results l = []"
  shows "(case handleSearch_links lc (OkBody l) e (s, db) of
            ((s', db'), call) \<Rightarrow>
              currentDisplayStage s' = FetchingAiAnalysis
              \<and> call = Some \<lparr>ac_endpoint = aiEndpoint (lc_model lc),
                              ac_original_query = lc_searchQuery lc,
                              ac_search_results = \<lparr>query = lc_searchQuery lc, results = [],
                                                    total_results = Some 0\<rparr>,
                              ac_forMessageId = lc_target lc,
                              ac_closure = lc_callback lc\<rparr>
              \<and> db' = db
              \<and> map cm_stage (chatHistory s')
                  = map (\<lambda>ch. if id_eq (cm_id ch) (lc_target lc) then FetchingAiAnalysis
                               else cm_stage ch) (chatHistory s))"
  using assms
  by (simp add: handleSearch_links_def fetchAiAnalysis_call_def Let_def comp_def)

theorem handleSearch_links_empty_witness:
  "results (ex_links []) = []
   \<and> currentDisplayStage (fst (fst (handleSearch_links ex_lc (OkBody (ex_links [])) env_failure
         (ex_ui\<lparr>currentDisplayStage := FetchingLinks\<rparr>, ex_db)))) = FetchingAiAnalysis
   \<and> map_option (\<lambda>c. results (ac_search_results c))
        (snd (handleSearch_links ex_lc (OkBody (ex_links [])) env_failure
         (ex_ui\<lparr>currentDisplayStage := FetchingLinks\<rparr>, ex_db))) = Some []"
proof -
  have a: "results (ex_links []) = []" by (simp add: ex_links_def)
  show ?thesis
    using handleSearch_links_empty [where l = "ex_links []" and lc = ex_lc and e = env_failure
        and s = "ex_ui\<lparr>currentDisplayStage := FetchingLinks\<rparr>" and db = ex_db] a
    by (auto split: prod.splits)
qed





subsection \<open>Renaming a session on its first message\<close>


















subsection \<open>Revealing the links\<close>









subsection \<open>Failures of the requests\<close>





subsection \<open>Switching the session while a query is in flight\<close>













subsection \<open>The single pending message\<close>


































end
